theory Spec2Isabelle
  imports Complex_Main "HOL-Library.Char_ord" "HOL-Library.List_Lexorder"
    "HOL-Library.Product_Lexorder"
begin

section \<open>Data model\<close>

text \<open>
  The exceptions the code of \<^verbatim>\<open>qanta/guesser/abstract.py\<close> can raise: a failed
  \<^verbatim>\<open>assert\<close>, a missing dictionary key, a pickle file that does not exist, a list
  index out of range, and the errors of pandas and of attribute lookup on an object
  that is not a DataFrame.
\<close>

datatype error =
    AssertionError
  | KeyError
  | FileNotFoundError
  | IndexError
  | ValueError
  | TypeError
  | AttributeError

text \<open>
  One row of the guess table built by \<^verbatim>\<open>generate_guesses\<close>: the seven columns of the
  DataFrame. The score is a float that the code only carries around and that pandas
  compares for equality when it drops duplicates, so its type is a parameter. The column \<^verbatim>\<open>fold\<close> is the field \<open>fold_col\<close>.
\<close>

record 's row =
  qnum :: int
  sentence :: int
  token :: int
  guess :: string
  score :: 's
  fold_col :: string
  guesser :: string

text \<open>A row of a task's table: the guess table without its \<^verbatim>\<open>guesser\<close> column.\<close>

record 's task_row =
  t_qnum :: int
  t_sentence :: int
  t_token :: int
  t_guess :: string
  t_score :: 's
  t_fold :: string

text \<open>
  What a pickle file can hold, as far as the code tells the cases apart: \<^verbatim>\<open>None\<close>, a
  guess table (a DataFrame, its rows in order), the guesser index (a dictionary from a
  guesser's name to its set of \<open>(qnum, sentence, token, guess)\<close>), or the task list
  (pairs of a question and a task table). The question type \<open>'q\<close> is a parameter.
\<close>

datatype ('s, 'q) pyobj =
    PyNone
  | DataFrame "'s row list"
  | GuessMap "string \<rightharpoonup> (int \<times> int \<times> int \<times> string) set"
  | TaskList "('q \<times> 's task_row list) list"

text \<open>The file system: the pickle files that exist, by path.\<close>

type_synonym ('s, 'q) fs = "string \<rightharpoonup> ('s, 'q) pyobj"

section \<open>Persistence\<close>

text \<open>\<^verbatim>\<open>os.path.join\<close> of two components, on POSIX.\<close>

definition path_join :: "string \<Rightarrow> string \<Rightarrow> string" where
  "path_join a b =
     (if b \<noteq> [] \<and> hd b = CHR ''/'' then b
      else if a = [] \<or> last a = CHR ''/'' then a @ b
      else a @ ''/'' @ b)"

definition guess_path :: "string \<Rightarrow> string \<Rightarrow> string" where
  "guess_path directory fld = path_join directory (''guesses_'' @ fld @ ''.pickle'')"

text \<open>The body of the loop of \<^verbatim>\<open>save_guesses\<close>, over the folds still to write.\<close>

fun save_loop ::
  "('s, 'q) fs \<Rightarrow> 's row list \<Rightarrow> string \<Rightarrow> string list \<Rightarrow> ('s, 'q) fs" where
  "save_loop files guess_df directory [] = files"
| "save_loop files guess_df directory (fld # folds) =
     (let fold_df = filter (\<lambda>r. fold_col r = fld) guess_df;
          output_path = guess_path directory fld
      in save_loop (files(output_path \<mapsto> DataFrame fold_df)) guess_df directory folds)"

definition save_folds :: "string list" where
  "save_folds = [''train'', ''dev'', ''test'', ''devtest'']"

definition save_guesses :: "('s, 'q) fs \<Rightarrow> 's row list \<Rightarrow> string \<Rightarrow> ('s, 'q) fs" where
  "save_guesses files guess_df directory = save_loop files guess_df directory save_folds"

text \<open>
  \<^verbatim>\<open>pd.concat\<close> of a list of two objects: \<^verbatim>\<open>None\<close> entries are dropped (all \<^verbatim>\<open>None\<close>
  is a \<^verbatim>\<open>ValueError\<close>), anything left that is not a DataFrame is a \<^verbatim>\<open>TypeError\<close>, and
  DataFrames are concatenated row-wise in the order given.
\<close>

fun pd_concat :: "('s, 'q) pyobj \<Rightarrow> ('s, 'q) pyobj \<Rightarrow> error + ('s, 'q) pyobj" where
  "pd_concat PyNone PyNone = Inl ValueError"
| "pd_concat PyNone (DataFrame ys) = Inr (DataFrame ys)"
| "pd_concat (DataFrame xs) PyNone = Inr (DataFrame xs)"
| "pd_concat (DataFrame xs) (DataFrame ys) = Inr (DataFrame (xs @ ys))"
| "pd_concat _ _ = Inl TypeError"

text \<open>
  The loop of \<^verbatim>\<open>load_guesses\<close>: \<open>guess_df\<close> is \<^verbatim>\<open>None\<close> until the first file is read;
  \<^verbatim>\<open>pd.read_pickle\<close> of a path that does not exist raises.
\<close>

fun load_loop ::
  "('s, 'q) fs \<Rightarrow> string \<Rightarrow> ('s, 'q) pyobj \<Rightarrow> string list \<Rightarrow> error + ('s, 'q) pyobj" where
  "load_loop files directory guess_df [] = Inr guess_df"
| "load_loop files directory guess_df (fld # folds) =
     (let input_path = guess_path directory fld in
      case files input_path of
        None \<Rightarrow> Inl FileNotFoundError
      | Some obj \<Rightarrow>
          if guess_df = PyNone then load_loop files directory obj folds
          else (case pd_concat guess_df obj of
                  Inl e \<Rightarrow> Inl e
                | Inr df \<Rightarrow> load_loop files directory df folds))"

definition load_guesses ::
  "('s, 'q) fs \<Rightarrow> string \<Rightarrow> string list \<Rightarrow> error + ('s, 'q) pyobj" where
  "load_guesses files directory folds =
     (if \<not> length folds > 0 then Inl AssertionError
      else load_loop files directory PyNone folds)"

text \<open>The rows of a pickled object that is a guess table (none otherwise).\<close>

definition rows_of :: "('s, 'q) pyobj \<Rightarrow> 's row list" where
  "rows_of obj = (case obj of DataFrame t \<Rightarrow> t | _ \<Rightarrow> [])"

section \<open>Guess generation\<close>

text \<open>
  Modelled from the spec: the class \<^verbatim>\<open>Question\<close> of \<^verbatim>\<open>qanta.datasets.quiz_bowl\<close> is not
  among the sources. A question has a unique integer id, its sentences in order, the
  canonical answer (page) and a fold tag. Its \<^verbatim>\<open>partials()\<close> and the dataset's
  \<^verbatim>\<open>questions_by_fold()\<close> are parameters of the model: the finite sequence of
  \<open>(sentence, token, prefix tokens)\<close> triples of a question, and a dictionary from a
  fold to its questions, whose lookup raises \<^verbatim>\<open>KeyError\<close> on a fold it does not have.
  The fields carry the prefix \<open>q_\<close>, since \<open>qnum\<close> is a column of the guess table.
\<close>

record question =
  q_qnum :: int
  q_text :: "string list"
  q_page :: string
  q_fold :: string

text \<open>
  The abstract methods of \<^verbatim>\<open>AbstractGuesser\<close> that \<^verbatim>\<open>generate_guesses\<close> uses. The
  guesser object is a state \<open>'g\<close>: \<^verbatim>\<open>guess\<close> returns its result and the state it
  leaves the object in, so that the calls made are visible in the final state;
  \<^verbatim>\<open>display_name\<close> is a property read from the object.
\<close>

record ('g, 's) abstract_guesser =
  guess_method :: "'g \<Rightarrow> string list \<Rightarrow> int \<Rightarrow> (string \<times> 's) list list \<times> 'g"
  display_name :: "'g \<Rightarrow> string"

text \<open>\<^verbatim>\<open>' '.join(text_list)\<close>.\<close>

fun join_space :: "string list \<Rightarrow> string" where
  "join_space [] = []"
| "join_space [x] = x"
| "join_space (x # y # ys) = x @ '' '' @ join_space (y # ys)"

text \<open>
  The five parallel lists the first loop fills, one entry for each prefix.
\<close>

record prefix_cols =
  question_texts :: "string list"
  q_folds :: "string list"
  q_qnums :: "int list"
  q_sentences :: "int list"
  q_tokens :: "int list"

definition no_prefixes :: prefix_cols where
  "no_prefixes = \<lparr>question_texts = [], q_folds = [], q_qnums = [], q_sentences = [], q_tokens = []\<rparr>"

text \<open>
  The three nested loops over the folds, the questions of a fold and the partials of
  a question.
\<close>

fun partials_loop ::
  "string \<Rightarrow> question \<Rightarrow> (int \<times> int \<times> string list) list \<Rightarrow> prefix_cols \<Rightarrow> prefix_cols" where
  "partials_loop fld q [] cols = cols"
| "partials_loop fld q ((sent, tok, text_list) # rest) cols =
     (let text = join_space text_list in
      partials_loop fld q rest
        \<lparr>question_texts = question_texts cols @ [text],
         q_folds = q_folds cols @ [fld],
         q_qnums = q_qnums cols @ [q_qnum q],
         q_sentences = q_sentences cols @ [sent],
         q_tokens = q_tokens cols @ [tok]\<rparr>)"

fun questions_loop ::
  "(question \<Rightarrow> (int \<times> int \<times> string list) list) \<Rightarrow> string \<Rightarrow> question list \<Rightarrow>
   prefix_cols \<Rightarrow> prefix_cols" where
  "questions_loop partials fld [] cols = cols"
| "questions_loop partials fld (q # qs) cols =
     questions_loop partials fld qs (partials_loop fld q (partials q) cols)"

fun folds_loop ::
  "(question \<Rightarrow> (int \<times> int \<times> string list) list) \<Rightarrow> (string \<rightharpoonup> question list) \<Rightarrow>
   string list \<Rightarrow> prefix_cols \<Rightarrow> error + prefix_cols" where
  "folds_loop partials questions_by_fold [] cols = Inr cols"
| "folds_loop partials questions_by_fold (fld # folds) cols =
     (case questions_by_fold fld of
        None \<Rightarrow> Inl KeyError
      | Some questions \<Rightarrow>
          folds_loop partials questions_by_fold folds (questions_loop partials fld questions cols))"

text \<open>
  The seven column lists of the second loop.
\<close>

record 's df_cols =
  df_qnums :: "int list"
  df_sentences :: "int list"
  df_tokens :: "int list"
  df_guesses :: "string list"
  df_scores :: "'s list"
  df_folds :: "string list"
  df_guessers :: "string list"

definition no_rows :: "'s df_cols" where
  "no_rows = \<lparr>df_qnums = [], df_sentences = [], df_tokens = [], df_guesses = [],
              df_scores = [], df_folds = [], df_guessers = []\<rparr>"

text \<open>
  Indexing a list with an index from \<^verbatim>\<open>range\<close>: out of range raises.
\<close>

definition py_index :: "'a list \<Rightarrow> nat \<Rightarrow> error + 'a" where
  "py_index xs i = (if i < length xs then Inr (xs ! i) else Inl IndexError)"

text \<open>
  The inner loop over the pairs returned for one position, and the outer loop over
  the positions \<^verbatim>\<open>range(len(question_texts))\<close>.
\<close>

fun guesses_loop ::
  "string \<Rightarrow> int \<Rightarrow> int \<Rightarrow> int \<Rightarrow> string \<Rightarrow> (string \<times> 's) list \<Rightarrow> 's df_cols \<Rightarrow> 's df_cols" where
  "guesses_loop fld qn sent tok guesser_name [] df = df"
| "guesses_loop fld qn sent tok guesser_name ((g, sc) # rest) df =
     guesses_loop fld qn sent tok guesser_name rest
       \<lparr>df_qnums = df_qnums df @ [qn],
        df_sentences = df_sentences df @ [sent],
        df_tokens = df_tokens df @ [tok],
        df_guesses = df_guesses df @ [g],
        df_scores = df_scores df @ [sc],
        df_folds = df_folds df @ [fld],
        df_guessers = df_guessers df @ [guesser_name]\<rparr>"

fun positions_loop ::
  "prefix_cols \<Rightarrow> (string \<times> 's) list list \<Rightarrow> string \<Rightarrow> nat list \<Rightarrow> 's df_cols \<Rightarrow>
   error + 's df_cols" where
  "positions_loop cols guesses_per_question guesser_name [] df = Inr df"
| "positions_loop cols guesses_per_question guesser_name (i # rest) df =
     (case py_index guesses_per_question i of Inl e \<Rightarrow> Inl e | Inr guesses_with_scores \<Rightarrow>
      case py_index (q_folds cols) i of Inl e \<Rightarrow> Inl e | Inr fld \<Rightarrow>
      case py_index (q_qnums cols) i of Inl e \<Rightarrow> Inl e | Inr qn \<Rightarrow>
      case py_index (q_sentences cols) i of Inl e \<Rightarrow> Inl e | Inr sent \<Rightarrow>
      case py_index (q_tokens cols) i of Inl e \<Rightarrow> Inl e | Inr tok \<Rightarrow>
        positions_loop cols guesses_per_question guesser_name rest
          (guesses_loop fld qn sent tok guesser_name guesses_with_scores df))"

text \<open>
  \<^verbatim>\<open>pd.DataFrame\<close> of a dictionary of columns: the columns must have one length; row
  \<open>i\<close> takes entry \<open>i\<close> of each.
\<close>

definition pd_DataFrame :: "'s df_cols \<Rightarrow> error + 's row list" where
  "pd_DataFrame df =
     (let n = length (df_qnums df) in
      if length (df_sentences df) = n \<and> length (df_tokens df) = n \<and> length (df_guesses df) = n
         \<and> length (df_scores df) = n \<and> length (df_folds df) = n \<and> length (df_guessers df) = n
      then Inr (map (\<lambda>i. \<lparr>qnum = df_qnums df ! i, sentence = df_sentences df ! i,
                            token = df_tokens df ! i, guess = df_guesses df ! i,
                            score = df_scores df ! i, fold_col = df_folds df ! i,
                            guesser = df_guessers df ! i\<rparr>) [0..<n])
      else Inl ValueError)"

text \<open>
  \<^verbatim>\<open>generate_guesses\<close>: the result, and the guesser object as the call left it. A
  failed \<^verbatim>\<open>assert\<close> is an \<^verbatim>\<open>AssertionError\<close>.
\<close>

definition generate_guesses ::
  "('g, 's) abstract_guesser \<Rightarrow> (question \<Rightarrow> (int \<times> int \<times> string list) list) \<Rightarrow>
   (string \<rightharpoonup> question list) \<Rightarrow> 'g \<Rightarrow> int \<Rightarrow> string list \<Rightarrow> (error + 's row list) \<times> 'g" where
  "generate_guesses cls partials questions_by_fold self max_n_guesses folds =
     (case folds_loop partials questions_by_fold folds no_prefixes of
        Inl e \<Rightarrow> (Inl e, self)
      | Inr cols \<Rightarrow>
          (case guess_method cls self (question_texts cols) max_n_guesses of
             (guesses_per_question, self') \<Rightarrow>
               if length guesses_per_question \<noteq> length (question_texts cols)
               then (Inl AssertionError, self')
               else
                 (let guesser_name = display_name cls self' in
                  case positions_loop cols guesses_per_question guesser_name
                         [0..<length (question_texts cols)] no_rows of
                    Inl e \<Rightarrow> (Inl e, self')
                  | Inr df \<Rightarrow> (pd_DataFrame df, self'))))"

subsection \<open>The batch and the table, as lists of tuples\<close>

text \<open>
  A position of the batch: the prefix text with the fold, question number, sentence
  and token it came from. \<open>batch_of\<close> lists the positions in the order of the loops;
  \<open>rows_for\<close> is the rows one position gets from the pairs returned for it, and
  \<open>expected_rows\<close> the rows of all positions in order.
\<close>

type_synonym prefix_pos = "string \<times> string \<times> int \<times> int \<times> int"

definition prefixes_of ::
  "(question \<Rightarrow> (int \<times> int \<times> string list) list) \<Rightarrow> string \<Rightarrow> question \<Rightarrow> prefix_pos list" where
  "prefixes_of partials fld q =
     map (\<lambda>(sent, tok, text_list). (join_space text_list, fld, q_qnum q, sent, tok)) (partials q)"

definition batch_of ::
  "(question \<Rightarrow> (int \<times> int \<times> string list) list) \<Rightarrow> (string \<rightharpoonup> question list) \<Rightarrow>
   string list \<Rightarrow> prefix_pos list" where
  "batch_of partials questions_by_fold folds =
     concat (map (\<lambda>fld. case questions_by_fold fld of
                           None \<Rightarrow> []
                         | Some questions \<Rightarrow> concat (map (prefixes_of partials fld) questions)) folds)"

definition append_positions :: "prefix_cols \<Rightarrow> prefix_pos list \<Rightarrow> prefix_cols" where
  "append_positions cols ps =
     \<lparr>question_texts = question_texts cols @ map (\<lambda>(x, f, q, s, t). x) ps,
      q_folds = q_folds cols @ map (\<lambda>(x, f, q, s, t). f) ps,
      q_qnums = q_qnums cols @ map (\<lambda>(x, f, q, s, t). q) ps,
      q_sentences = q_sentences cols @ map (\<lambda>(x, f, q, s, t). s) ps,
      q_tokens = q_tokens cols @ map (\<lambda>(x, f, q, s, t). t) ps\<rparr>"

definition rows_for :: "string \<Rightarrow> prefix_pos \<Rightarrow> (string \<times> 's) list \<Rightarrow> 's row list" where
  "rows_for guesser_name p guesses_with_scores =
     (case p of (x, f, q, s, t) \<Rightarrow>
        map (\<lambda>(g, sc). \<lparr>qnum = q, sentence = s, token = t, guess = g, score = sc,
                          fold_col = f, guesser = guesser_name\<rparr>) guesses_with_scores)"

definition append_rows :: "'s df_cols \<Rightarrow> 's row list \<Rightarrow> 's df_cols" where
  "append_rows df rs =
     \<lparr>df_qnums = df_qnums df @ map qnum rs,
      df_sentences = df_sentences df @ map sentence rs,
      df_tokens = df_tokens df @ map token rs,
      df_guesses = df_guesses df @ map guess rs,
      df_scores = df_scores df @ map score rs,
      df_folds = df_folds df @ map fold_col rs,
      df_guessers = df_guessers df @ map guesser rs\<rparr>"

definition expected_rows :: "string \<Rightarrow> prefix_pos list \<Rightarrow> (string \<times> 's) list list \<Rightarrow> 's row list" where
  "expected_rows guesser_name ps guesses_per_question =
     concat (map (\<lambda>(p, gs). rows_for guesser_name p gs) (zip ps guesses_per_question))"

section \<open>Cross-guesser aggregation\<close>

text \<open>
  The constants of \<^verbatim>\<open>qanta.util.constants\<close> that the code reads. The module is not
  among the sources, so they are parameters: the default folds of \<^verbatim>\<open>load_guesses\<close>, the
  registry of enabled guessers (class name and configuration), the directory prefix of
  the guessers' outputs and the paths of the two artifacts.
\<close>

record 'c constants =
  ALL_FOLDS :: "string list"
  GUESSER_LIST :: "(string \<times> 'c) list"
  GUESSER_TARGET_PREFIX :: string
  GUESSER_INDEX :: string
  GUESS_TASKS :: string

type_synonym guess_map = "string \<rightharpoonup> (int \<times> int \<times> int \<times> string) set"

text \<open>
  The first loop of \<^verbatim>\<open>preprocess_all_guesses\<close>: the guess tables of all guessers,
  concatenated.
\<close>

fun guessers_loop ::
  "('s, 'q) fs \<Rightarrow> 'c constants \<Rightarrow> ('s, 'q) pyobj \<Rightarrow> (string \<times> 'c) list \<Rightarrow>
   error + ('s, 'q) pyobj" where
  "guessers_loop files c guess_df [] = Inr guess_df"
| "guessers_loop files c guess_df ((guesser_class, cfg) # rest) =
     (let input_path = path_join (GUESSER_TARGET_PREFIX c) guesser_class in
      case load_guesses files input_path (ALL_FOLDS c) of
        Inl e \<Rightarrow> Inl e
      | Inr new_guess_df \<Rightarrow>
          if guess_df = PyNone then guessers_loop files c new_guess_df rest
          else (case pd_concat guess_df new_guess_df of
                  Inl e \<Rightarrow> Inl e
                | Inr df \<Rightarrow> guessers_loop files c df rest))"

text \<open>
  \<^verbatim>\<open>groupby\<close> yields its groups in ascending order of the key, each with the rows of
  that key in their order in the table. Keys are compared as tuples, from the left.
\<close>

definition group_keys :: "'s row list \<Rightarrow> (int \<times> int \<times> int) list" where
  "group_keys guess_df = sort (remdups (map (\<lambda>r. (qnum r, sentence r, token r)) guess_df))"

definition get_group :: "'s row list \<Rightarrow> int \<times> int \<times> int \<Rightarrow> 's row list" where
  "get_group guess_df name = filter (\<lambda>r. (qnum r, sentence r, token r) = name) guess_df"

text \<open>
  The keys of the inner \<^verbatim>\<open>groupby\<close> on \<open>(guess, guesser)\<close>, in ascending order as
  well; each iteration only adds an element to a set.
\<close>

definition subgroup_keys :: "'s row list \<Rightarrow> (string \<times> string) list" where
  "subgroup_keys grp = sort (remdups (map (\<lambda>r. (guess r, guesser r)) grp))"

text \<open>
  \<^verbatim>\<open>guess_map[guesser].add(x)\<close> on a \<^verbatim>\<open>defaultdict(set)\<close>.
\<close>

definition set_add :: "guess_map \<Rightarrow> string \<Rightarrow> int \<times> int \<times> int \<times> string \<Rightarrow> guess_map" where
  "set_add guess_map k x =
     guess_map(k \<mapsto> insert x (case guess_map k of None \<Rightarrow> {} | Some s \<Rightarrow> s))"

fun subgroups_loop ::
  "int \<Rightarrow> int \<Rightarrow> int \<Rightarrow> (string \<times> string) list \<Rightarrow> guess_map \<Rightarrow> guess_map" where
  "subgroups_loop qn sent tok [] guess_map = guess_map"
| "subgroups_loop qn sent tok (guess_guesser # rest) guess_map =
     (let g = fst guess_guesser; gr = snd guess_guesser in
      subgroups_loop qn sent tok rest (set_add guess_map gr (qn, sent, tok, g)))"

text \<open>
  \<^verbatim>\<open>drop('guesser', axis=1)\<close> on one row, and \<^verbatim>\<open>drop_duplicates()\<close>, which keeps the
  first of equal rows and the order of the rows kept.
\<close>

definition drop_guesser :: "'s row \<Rightarrow> 's task_row" where
  "drop_guesser r =
     \<lparr>t_qnum = qnum r, t_sentence = sentence r, t_token = token r, t_guess = guess r,
      t_score = score r, t_fold = fold_col r\<rparr>"

fun drop_duplicates_from :: "'a list \<Rightarrow> 'a list \<Rightarrow> 'a list" where
  "drop_duplicates_from seen [] = []"
| "drop_duplicates_from seen (x # xs) =
     (if x \<in> set seen then drop_duplicates_from seen xs
      else x # drop_duplicates_from (x # seen) xs)"

definition drop_duplicates :: "'a list \<Rightarrow> 'a list" where
  "drop_duplicates xs = drop_duplicates_from [] xs"

text \<open>
  The loop over the groups: the lookup \<^verbatim>\<open>question_map[qnum]\<close> raises on a missing key.
\<close>

fun groups_loop ::
  "(int \<rightharpoonup> 'q) \<Rightarrow> 's row list \<Rightarrow> (int \<times> int \<times> int) list \<Rightarrow> guess_map \<Rightarrow>
   ('q \<times> 's task_row list) list \<Rightarrow> error + guess_map \<times> ('q \<times> 's task_row list) list" where
  "groups_loop question_map guess_df [] guess_map tasks = Inr (guess_map, tasks)"
| "groups_loop question_map guess_df (name # names) guess_map tasks =
     (let grp = get_group guess_df name;
          qn = fst name; sent = fst (snd name); tok = snd (snd name);
          guess_map' = subgroups_loop qn sent tok (subgroup_keys grp) guess_map
      in case question_map qn of
           None \<Rightarrow> Inl KeyError
         | Some question \<Rightarrow>
             (let guesses = drop_duplicates (map drop_guesser grp)
              in groups_loop question_map guess_df names guess_map' (tasks @ [(question, guesses)])))"

text \<open>
  The second part of \<^verbatim>\<open>preprocess_all_guesses\<close>, from the combined table to the
  guesser index and the task list; \<^verbatim>\<open>groupby\<close> on an object that is not a DataFrame
  is an \<^verbatim>\<open>AttributeError\<close>. Then the whole function: an error leaves the files as they
  were, a normal return is the files with the two artifacts written.
\<close>

definition aggregate ::
  "(int \<rightharpoonup> 'q) \<Rightarrow> ('s, 'q) pyobj \<Rightarrow> error + guess_map \<times> ('q \<times> 's task_row list) list" where
  "aggregate question_map obj =
     (case obj of
        DataFrame guess_df \<Rightarrow>
          groups_loop question_map guess_df (group_keys guess_df) Map.empty []
      | _ \<Rightarrow> Inl AttributeError)"

definition preprocess_all_guesses ::
  "'c constants \<Rightarrow> (int \<rightharpoonup> 'q) \<Rightarrow> ('s, 'q) fs \<Rightarrow> error + ('s, 'q) fs" where
  "preprocess_all_guesses c question_map files =
     (case guessers_loop files c PyNone (GUESSER_LIST c) of
        Inl e \<Rightarrow> Inl e
      | Inr guess_df \<Rightarrow>
          (case aggregate question_map guess_df of
             Inl e \<Rightarrow> Inl e
           | Inr (guess_map, tasks) \<Rightarrow>
               Inr (files(GUESSER_INDEX c \<mapsto> GuessMap guess_map,
                          GUESS_TASKS c \<mapsto> TaskList tasks))))"

subsection \<open>The index and the tasks, as functions of the combined table\<close>

text \<open>
  \<open>cover\<close> adds to an index the positions and guesses of a set of rows, by guesser;
  \<open>task_of\<close> is the task of one group; \<open>read_paths\<close> lists the guess files the first
  loop reads.
\<close>

definition cover :: "guess_map \<Rightarrow> 's row set \<Rightarrow> guess_map" where
  "cover guess_map R =
     (\<lambda>g. if \<exists>r\<in>R. guesser r = g
          then Some ((case guess_map g of None \<Rightarrow> {} | Some s \<Rightarrow> s) \<union>
                     {(qnum r, sentence r, token r, guess r) | r. r \<in> R \<and> guesser r = g})
          else guess_map g)"

definition task_of ::
  "(int \<rightharpoonup> 'q) \<Rightarrow> 's row list \<Rightarrow> int \<times> int \<times> int \<Rightarrow> 'q \<times> 's task_row list" where
  "task_of question_map guess_df name =
     (the (question_map (fst name)), drop_duplicates (map drop_guesser (get_group guess_df name)))"

definition read_paths :: "'c constants \<Rightarrow> string list" where
  "read_paths c =
     concat (map (\<lambda>(guesser_class, cfg).
                    map (guess_path (path_join (GUESSER_TARGET_PREFIX c) guesser_class)) (ALL_FOLDS c))
                 (GUESSER_LIST c))"

section \<open>Example data\<close>

text \<open>
  Concrete tables, questions, guessers and files on which the theorems below are
  instantiated: a small guess table with a row of a fold that is not saved, a question
  with two prefixes, a guesser that answers one of them with three pairs out of score
  order and counts its calls, a guesser that returns too short a list, and two
  guessers that make the same guess at the same score.
\<close>

definition ex_train :: "real row" where
  "ex_train = \<lparr>qnum = 7, sentence = 0, token = 2, guess = ''Napoleon'', score = 0.9,
               fold_col = ''train'', guesser = ''dan''\<rparr>"

definition ex_dev :: "real row" where
  "ex_dev = \<lparr>qnum = 8, sentence = 1, token = 0, guess = ''Caesar'', score = 0.3,
             fold_col = ''dev'', guesser = ''dan''\<rparr>"

definition ex_other :: "real row" where
  "ex_other = \<lparr>qnum = 9, sentence = 0, token = 1, guess = ''Cicero'', score = 0.5,
               fold_col = ''guesstrain'', guesser = ''dan''\<rparr>"

definition ex_table :: "real row list" where
  "ex_table = [ex_train, ex_other, ex_dev]"

definition ex_files :: "(real, unit) fs" where
  "ex_files = Map.empty"

definition ex_question :: question where
  "ex_question = \<lparr>q_qnum = 7, q_text = [''This general lost''], q_page = ''Napoleon'', q_fold = ''dev''\<rparr>"

definition ex_partials :: "question \<Rightarrow> (int \<times> int \<times> string list) list" where
  "ex_partials q = [(0, 1, [''This'']), (0, 2, [''This'', ''general''])]"

definition ex_questions_by_fold :: "string \<rightharpoonup> question list" where
  "ex_questions_by_fold = [''dev'' \<mapsto> [ex_question]]"

definition ex_guesser :: "(nat, real) abstract_guesser" where
  "ex_guesser =
     \<lparr>guess_method = (\<lambda>calls questions max_n_guesses.
         (map (\<lambda>text. if text = ''This general''
                        then [(''Caesar'', 0.3), (''Napoleon'', 0.9), (''Cicero'', 0.5)]
                        else []) questions,
          Suc calls)),
      display_name = (\<lambda>calls. ''dan'')\<rparr>"

definition ex_short_guesser :: "(nat, real) abstract_guesser" where
  "ex_short_guesser =
     \<lparr>guess_method = (\<lambda>calls questions max_n_guesses. ([], Suc calls)),
      display_name = (\<lambda>calls. ''short'')\<rparr>"

definition ex_dan_row :: "real row" where
  "ex_dan_row = \<lparr>qnum = 7, sentence = 0, token = 2, guess = ''Napoleon'', score = 0.9,
                 fold_col = ''dev'', guesser = ''dan''\<rparr>"

definition ex_rnn_row :: "real row" where
  "ex_rnn_row = \<lparr>qnum = 7, sentence = 0, token = 2, guess = ''Napoleon'', score = 0.9,
                 fold_col = ''dev'', guesser = ''rnn''\<rparr>"

definition ex_rnn_other :: "real row" where
  "ex_rnn_other = \<lparr>qnum = 7, sentence = 0, token = 2, guess = ''Caesar'', score = 0.3,
                   fold_col = ''dev'', guesser = ''rnn''\<rparr>"

definition ex_combined :: "real row list" where
  "ex_combined = [ex_dan_row, ex_rnn_row, ex_rnn_other]"

definition ex_question_map :: "int \<rightharpoonup> question" where
  "ex_question_map = [7 \<mapsto> ex_question]"

definition ex_constants :: "unit constants" where
  "ex_constants = \<lparr>ALL_FOLDS = [''dev''], GUESSER_LIST = [(''dan'', ()), (''rnn'', ())],
                   GUESSER_TARGET_PREFIX = ''out'', GUESSER_INDEX = ''out/index'',
                   GUESS_TASKS = ''out/tasks''\<rparr>"

definition ex_guess_files :: "(real, question) fs" where
  "ex_guess_files =
     save_guesses (save_guesses Map.empty [ex_dan_row] ''out/dan'') [ex_rnn_row, ex_rnn_other] ''out/rnn''"

section \<open>Persistence: proofs\<close>

lemmas ex_defs = ex_train_def ex_dev_def ex_other_def ex_table_def ex_files_def

lemma guess_path_inj: "guess_path d f = guess_path d f' \<longleftrightarrow> f = f'"
  by (auto simp: guess_path_def path_join_def)

lemma save_loop_other:
  "p \<notin> guess_path d ` set folds \<Longrightarrow> save_loop files df d folds p = files p"
  by (induction folds arbitrary: files) (auto simp: Let_def)

lemma save_loop_written:
  "f \<in> set folds \<Longrightarrow>
   save_loop files df d folds (guess_path d f) = Some (DataFrame (filter (\<lambda>r. fold_col r = f) df))"
proof (induction folds arbitrary: files)
  case Nil then show ?case by simp
next
  case (Cons g folds)
  show ?case
  proof (cases "f \<in> set folds")
    case True
    then show ?thesis using Cons.IH by (simp add: Let_def)
  next
    case False
    with Cons.prems have fg: "f = g" by simp
    have "guess_path d f \<notin> guess_path d ` set folds"
      using False by (auto simp: guess_path_inj)
    then show ?thesis using fg by (simp add: Let_def save_loop_other)
  qed
qed

lemma load_loop_tables:
  assumes "\<forall>f\<in>set folds. \<exists>t. files (guess_path d f) = Some (DataFrame t)"
  shows "load_loop files d (DataFrame acc) folds =
         Inr (DataFrame (acc @ concat (map (\<lambda>f. rows_of (the (files (guess_path d f)))) folds)))"
  using assms
  by (induction folds arbitrary: acc) (auto simp: Let_def rows_of_def)

lemma load_loop_tables_None:
  assumes "\<forall>f\<in>set folds. \<exists>t. files (guess_path d f) = Some (DataFrame t)" "folds \<noteq> []"
  shows "load_loop files d PyNone folds =
         Inr (DataFrame (concat (map (\<lambda>f. rows_of (the (files (guess_path d f)))) folds)))"
proof (cases folds)
  case Nil with assms show ?thesis by simp
next
  case (Cons g gs)
  from assms(1) Cons obtain t where t: "files (guess_path d g) = Some (DataFrame t)" by auto
  have "\<forall>f\<in>set gs. \<exists>t. files (guess_path d f) = Some (DataFrame t)" using assms(1) Cons by simp
  from load_loop_tables[OF this, of t] t Cons show ?thesis by (simp add: Let_def rows_of_def)
qed

lemma load_loop_missing:
  assumes "\<exists>f\<in>set folds. files (guess_path d f) = None"
  shows "\<exists>e. load_loop files d acc folds = Inl e"
  using assms
  by (induction folds arbitrary: acc) (auto simp: Let_def split: option.splits sum.splits)

lemma load_loop_missing_tables:
  assumes "\<exists>f\<in>set folds. files (guess_path d f) = None"
    and "\<forall>f\<in>set folds. \<forall>obj. files (guess_path d f) = Some obj \<longrightarrow> (\<exists>t. obj = DataFrame t)"
    and "acc = PyNone \<or> (\<exists>t. acc = DataFrame t)"
  shows "load_loop files d acc folds = Inl FileNotFoundError"
  using assms
proof (induction folds arbitrary: acc)
  case Nil then show ?case by simp
next
  case (Cons g gs)
  show ?case
  proof (cases "files (guess_path d g)")
    case None then show ?thesis by (simp add: Let_def)
  next
    case (Some obj)
    with Cons.prems(2) obtain t where t: "obj = DataFrame t" by auto
    from Some Cons.prems(1) have m: "\<exists>f\<in>set gs. files (guess_path d f) = None" by auto
    from Cons.prems(2) have a: "\<forall>f\<in>set gs. \<forall>obj. files (guess_path d f) = Some obj \<longrightarrow> (\<exists>t. obj = DataFrame t)" by simp
    from Cons.prems(3) show ?thesis
    proof
      assume "acc = PyNone"
      then show ?thesis using Some t Cons.IH[OF m a, of "DataFrame t"] by (simp add: Let_def)
    next
      assume "\<exists>u. acc = DataFrame u"
      then obtain u where "acc = DataFrame u" ..
      then show ?thesis using Some t Cons.IH[OF m a, of "DataFrame (u @ t)"] by (simp add: Let_def)
    qed
  qed
qed

lemma pd_concat_rows:
  "pd_concat a b = Inr df \<Longrightarrow> set (rows_of df) \<subseteq> set (rows_of a) \<union> set (rows_of b)"
  by (cases "(a, b)" rule: pd_concat.cases) (auto simp: rows_of_def)

lemma load_loop_rows:
  "load_loop files d acc folds = Inr df \<Longrightarrow> r \<in> set (rows_of df) \<Longrightarrow>
   r \<in> set (rows_of acc) \<or> (\<exists>p u. files p = Some (DataFrame u) \<and> r \<in> set u)"
proof (induction folds arbitrary: acc)
  case Nil then show ?case by simp
next
  case (Cons g gs)
  from Cons.prems(1) obtain obj where obj: "files (guess_path d g) = Some obj"
    by (auto simp: Let_def split: option.splits)
  have ob: "r \<in> set (rows_of obj) \<Longrightarrow> ?case"
    using obj by (cases obj) (auto simp: rows_of_def)
  show ?case
  proof (cases "acc = PyNone")
    case True
    with Cons.prems(1) obj have "load_loop files d obj gs = Inr df" by (simp add: Let_def)
    from Cons.IH[OF this Cons.prems(2)] ob show ?thesis by blast
  next
    case False
    with Cons.prems(1) obj obtain c where c: "pd_concat acc obj = Inr c" "load_loop files d c gs = Inr df"
      by (auto simp: Let_def split: sum.splits)
    from Cons.IH[OF c(2) Cons.prems(2)] pd_concat_rows[OF c(1)] ob show ?thesis by blast
  qed
qed

lemma load_after_save:
  assumes "folds \<noteq> []" "set folds \<subseteq> set save_folds"
  shows "load_guesses (save_guesses files guess_df directory) directory folds =
         Inr (DataFrame (concat (map (\<lambda>f. filter (\<lambda>r. fold_col r = f) guess_df) folds)))"
proof -
  let ?fs = "save_guesses files guess_df directory"
  have w: "\<And>f. f \<in> set folds \<Longrightarrow>
      ?fs (guess_path directory f) = Some (DataFrame (filter (\<lambda>r. fold_col r = f) guess_df))"
    using assms(2) by (auto simp: save_guesses_def save_loop_written)
  then have t: "\<forall>f\<in>set folds. \<exists>t. ?fs (guess_path directory f) = Some (DataFrame t)" by blast
  have "map (\<lambda>f. rows_of (the (?fs (guess_path directory f)))) folds =
        map (\<lambda>f. filter (\<lambda>r. fold_col r = f) guess_df) folds"
    using w by (simp add: rows_of_def)
  with load_loop_tables_None[OF t assms(1)] assms(1) show ?thesis
    by (simp add: load_guesses_def)
qed

text \<open>
  Claim C6. \<^verbatim>\<open>save_guesses\<close> writes one file for each of the four folds
  \<open>train\<close>, \<open>dev\<close>, \<open>test\<close>, \<open>devtest\<close>, at the path \<open>guess_path\<close> gives for the fold
  (four distinct paths), holding exactly the rows of the table whose fold column is
  that fold, in order; a fold with no row gets a file with an empty table; no other
  path is touched.
\<close>

theorem save_guesses_files:
  "(\<forall>f\<in>set save_folds.
      save_guesses files guess_df directory (guess_path directory f) =
        Some (DataFrame (filter (\<lambda>r. fold_col r = f) guess_df)))
   \<and> (\<forall>p. p \<notin> guess_path directory ` set save_folds \<longrightarrow>
          save_guesses files guess_df directory p = files p)
   \<and> distinct (map (guess_path directory) save_folds)
   \<and> save_folds = [''train'', ''dev'', ''test'', ''devtest'']
   \<and> (\<forall>f\<in>set save_folds. (\<forall>r\<in>set guess_df. fold_col r \<noteq> f) \<longrightarrow>
          save_guesses files guess_df directory (guess_path directory f) = Some (DataFrame []))"
proof -
  have w: "\<forall>f\<in>set save_folds.
      save_guesses files guess_df directory (guess_path directory f) =
        Some (DataFrame (filter (\<lambda>r. fold_col r = f) guess_df))"
    by (simp add: save_guesses_def save_loop_written)
  have o: "\<forall>p. p \<notin> guess_path directory ` set save_folds \<longrightarrow>
          save_guesses files guess_df directory p = files p"
    by (simp add: save_guesses_def save_loop_other)
  have d: "distinct (map (guess_path directory) save_folds)"
    by (simp add: distinct_map inj_on_def guess_path_inj) (simp add: save_folds_def)
  have e: "\<forall>f\<in>set save_folds. (\<forall>r\<in>set guess_df. fold_col r \<noteq> f) \<longrightarrow>
          save_guesses files guess_df directory (guess_path directory f) = Some (DataFrame [])"
  proof (intro ballI impI)
    fix f assume f: "f \<in> set save_folds" and n: "\<forall>r\<in>set guess_df. fold_col r \<noteq> f"
    from n have "filter (\<lambda>r. fold_col r = f) guess_df = []" by (simp add: filter_empty_conv)
    with w f show "save_guesses files guess_df directory (guess_path directory f) = Some (DataFrame [])"
      by simp
  qed
  from w o d e show ?thesis by (simp add: save_folds_def)
qed

theorem save_guesses_files_witness:
  "save_guesses ex_files ex_table ''out'' (guess_path ''out'' ''train'') = Some (DataFrame [ex_train])
   \<and> save_guesses ex_files ex_table ''out'' (guess_path ''out'' ''dev'') = Some (DataFrame [ex_dev])
   \<and> save_guesses ex_files ex_table ''out'' (guess_path ''out'' ''test'') = Some (DataFrame [])
   \<and> save_guesses ex_files ex_table ''out'' (guess_path ''out'' ''devtest'') = Some (DataFrame [])
   \<and> save_guesses ex_files ex_table ''out'' (guess_path ''out'' ''guesstrain'') = None
   \<and> guess_path ''out'' ''train'' = ''out/guesses_train.pickle''"
proof -
  note w = save_guesses_files[of ex_files ex_table "''out''"]
  from w have a: "\<forall>f\<in>set save_folds.
      save_guesses ex_files ex_table ''out'' (guess_path ''out'' f) =
        Some (DataFrame (filter (\<lambda>r. fold_col r = f) ex_table))" by blast
  from w have o: "\<forall>p. p \<notin> guess_path ''out'' ` set save_folds \<longrightarrow>
          save_guesses ex_files ex_table ''out'' p = ex_files p" by blast
  have "guess_path ''out'' ''guesstrain'' \<notin> guess_path ''out'' ` set save_folds"
    by (simp add: guess_path_inj save_folds_def)
  with o have n: "save_guesses ex_files ex_table ''out'' (guess_path ''out'' ''guesstrain'') = None"
    by (simp add: ex_files_def)
  have p: "guess_path ''out'' ''train'' = ''out/guesses_train.pickle''"
    by (simp add: guess_path_def path_join_def)
  from a n p show ?thesis by (simp add: save_folds_def ex_defs)
qed

text \<open>
  Claim C4. Saving a table and then loading a non-empty list of folds of the fixed
  vocabulary gives a table whose rows, as a set, are the rows of the saved table
  whose fold column is one of the requested folds.
\<close>

theorem save_load_round_trip:
  assumes "folds \<noteq> []" and "set folds \<subseteq> set save_folds"
  shows "\<exists>t. load_guesses (save_guesses files guess_df directory) directory folds = Inr (DataFrame t)
            \<and> set t = {r \<in> set guess_df. fold_col r \<in> set folds}"
proof -
  have "set (concat (map (\<lambda>f. filter (\<lambda>r. fold_col r = f) guess_df) folds)) =
        {r \<in> set guess_df. fold_col r \<in> set folds}"
    by auto
  with load_after_save[OF assms] show ?thesis by blast
qed

theorem save_load_round_trip_witness:
  "[''dev'', ''train''] \<noteq> [] \<and> set [''dev'', ''train''] \<subseteq> set save_folds \<and>
   (\<exists>t. load_guesses (save_guesses ex_files ex_table ''out'') ''out'' [''dev'', ''train''] = Inr (DataFrame t)
        \<and> set t = {ex_dev, ex_train})"
proof -
  have h1: "[''dev'', ''train''] \<noteq> []" by simp
  have h2: "set [''dev'', ''train''] \<subseteq> set save_folds" by (simp add: save_folds_def)
  have f: "filter (\<lambda>r. fold_col r \<in> set [''dev'', ''train'']) ex_table = [ex_train, ex_dev]"
    by (simp add: ex_defs)
  have "{r \<in> set ex_table. fold_col r \<in> set [''dev'', ''train'']} =
        set (filter (\<lambda>r. fold_col r \<in> set [''dev'', ''train'']) ex_table)"
    by (simp only: set_filter)
  also have "\<dots> = {ex_dev, ex_train}" by (simp only: f) (simp add: insert_commute)
  finally have s: "{r \<in> set ex_table. fold_col r \<in> set [''dev'', ''train'']} = {ex_dev, ex_train}" .
  from save_load_round_trip[OF h1 h2, of ex_files ex_table "''out''"]
  obtain t where t: "load_guesses (save_guesses ex_files ex_table ''out'') ''out'' [''dev'', ''train''] = Inr (DataFrame t)"
    "set t = {r \<in> set ex_table. fold_col r \<in> set [''dev'', ''train'']}" by blast
  from t(2) s have "set t = {ex_dev, ex_train}" by (simp only:)
  with t(1) h1 h2 show ?thesis by blast
qed

text \<open>
  Claim C5. \<^verbatim>\<open>load_guesses\<close> fails on an empty list of folds; it never returns a
  table when the file of a requested fold is absent; and when the requested files
  that exist hold guess tables, it fails with the not-found error if one is absent,
  and otherwise returns the tables concatenated in the order of the request.
\<close>

theorem load_guesses_spec:
  "load_guesses files directory [] = Inl AssertionError
   \<and> (folds \<noteq> [] \<and> (\<exists>f\<in>set folds. files (guess_path directory f) = None) \<longrightarrow>
        (\<exists>e. load_guesses files directory folds = Inl e))
   \<and> ((\<forall>f\<in>set folds. \<forall>obj. files (guess_path directory f) = Some obj \<longrightarrow> (\<exists>t. obj = DataFrame t)) \<longrightarrow>
        load_guesses files directory folds =
          (if folds = [] then Inl AssertionError
           else if \<exists>f\<in>set folds. files (guess_path directory f) = None then Inl FileNotFoundError
           else Inr (DataFrame (concat (map (\<lambda>f. rows_of (the (files (guess_path directory f)))) folds)))))"
proof (intro conjI impI)
  show "load_guesses files directory [] = Inl AssertionError" by (simp add: load_guesses_def)
next
  assume "folds \<noteq> [] \<and> (\<exists>f\<in>set folds. files (guess_path directory f) = None)"
  then show "\<exists>e. load_guesses files directory folds = Inl e"
    using load_loop_missing[of folds files directory PyNone] by (simp add: load_guesses_def)
next
  assume a: "\<forall>f\<in>set folds. \<forall>obj. files (guess_path directory f) = Some obj \<longrightarrow> (\<exists>t. obj = DataFrame t)"
  show "load_guesses files directory folds =
          (if folds = [] then Inl AssertionError
           else if \<exists>f\<in>set folds. files (guess_path directory f) = None then Inl FileNotFoundError
           else Inr (DataFrame (concat (map (\<lambda>f. rows_of (the (files (guess_path directory f)))) folds))))"
  proof (cases "folds = []")
    case True then show ?thesis by (simp add: load_guesses_def)
  next
    case ne: False
    show ?thesis
    proof (cases "\<exists>f\<in>set folds. files (guess_path directory f) = None")
      case True
      from load_loop_missing_tables[OF True a, of PyNone] ne True show ?thesis
        by (simp add: load_guesses_def)
    next
      case False
      with a have "\<forall>f\<in>set folds. \<exists>t. files (guess_path directory f) = Some (DataFrame t)"
        by (metis option.exhaust)
      from load_loop_tables_None[OF this ne] ne False show ?thesis
        by (simp add: load_guesses_def)
    qed
  qed
qed

theorem load_guesses_spec_witness:
  "load_guesses (ex_files(guess_path ''out'' ''train'' \<mapsto> DataFrame [ex_train])) ''out'' [''dev'']
     = Inl FileNotFoundError
   \<and> load_guesses (ex_files(guess_path ''out'' ''train'' \<mapsto> DataFrame [ex_train],
                             guess_path ''out'' ''dev'' \<mapsto> DataFrame [ex_dev])) ''out'' [''dev'', ''train'']
     = Inr (DataFrame [ex_dev, ex_train])"
proof -
  have a: "load_guesses (ex_files(guess_path ''out'' ''train'' \<mapsto> DataFrame [ex_train])) ''out'' [''dev'']
     = Inl FileNotFoundError"
    using load_guesses_spec[of "ex_files(guess_path ''out'' ''train'' \<mapsto> DataFrame [ex_train])" "''out''" "[''dev'']"]
    by (simp add: guess_path_inj ex_files_def)
  have b: "load_guesses (ex_files(guess_path ''out'' ''train'' \<mapsto> DataFrame [ex_train],
                             guess_path ''out'' ''dev'' \<mapsto> DataFrame [ex_dev])) ''out'' [''dev'', ''train'']
     = Inr (DataFrame [ex_dev, ex_train])"
    using load_guesses_spec[of "ex_files(guess_path ''out'' ''train'' \<mapsto> DataFrame [ex_train],
                             guess_path ''out'' ''dev'' \<mapsto> DataFrame [ex_dev])" "''out''" "[''dev'', ''train'']"]
    by (simp add: guess_path_inj ex_files_def rows_of_def)
  from a b show ?thesis by simp
qed

text \<open>
  Claim C9. A row whose fold is not one of the four folds of \<^verbatim>\<open>save_guesses\<close> is in
  none of the four files written, no other file changes, and, when no table already
  on disk holds the row, no later \<^verbatim>\<open>load_guesses\<close> returns a table that holds it.
\<close>

theorem save_guesses_drops_other_folds:
  assumes "fold_col r \<notin> set save_folds"
  shows "(\<forall>f\<in>set save_folds. \<exists>t. save_guesses files guess_df directory (guess_path directory f) = Some (DataFrame t) \<and> r \<notin> set t)
       \<and> (\<forall>p. p \<notin> guess_path directory ` set save_folds \<longrightarrow> save_guesses files guess_df directory p = files p)
       \<and> ((\<forall>p t. files p = Some (DataFrame t) \<longrightarrow> r \<notin> set t) \<longrightarrow>
            (\<forall>d folds t. load_guesses (save_guesses files guess_df directory) d folds = Inr (DataFrame t) \<longrightarrow> r \<notin> set t))"
proof (intro conjI impI allI ballI)
  fix f assume "f \<in> set save_folds"
  then have "save_guesses files guess_df directory (guess_path directory f) =
             Some (DataFrame (filter (\<lambda>r. fold_col r = f) guess_df))"
    by (simp add: save_guesses_def save_loop_written)
  moreover have "r \<notin> set (filter (\<lambda>r. fold_col r = f) guess_df)"
    using assms \<open>f \<in> set save_folds\<close> by auto
  ultimately show "\<exists>t. save_guesses files guess_df directory (guess_path directory f) = Some (DataFrame t) \<and> r \<notin> set t"
    by blast
next
  fix p assume "p \<notin> guess_path directory ` set save_folds"
  then show "save_guesses files guess_df directory p = files p"
    by (simp add: save_guesses_def save_loop_other)
next
  fix d folds t
  assume old: "\<forall>p t. files p = Some (DataFrame t) \<longrightarrow> r \<notin> set t"
    and ld: "load_guesses (save_guesses files guess_df directory) d folds = Inr (DataFrame t)"
  let ?fs = "save_guesses files guess_df directory"
  have none: "\<And>p u. ?fs p = Some (DataFrame u) \<Longrightarrow> r \<notin> set u"
  proof -
    fix p u assume pu: "?fs p = Some (DataFrame u)"
    show "r \<notin> set u"
    proof (cases "p \<in> guess_path directory ` set save_folds")
      case True
      then obtain f where f: "f \<in> set save_folds" "p = guess_path directory f" by auto
      then have "?fs p = Some (DataFrame (filter (\<lambda>r. fold_col r = f) guess_df))"
        by (simp add: save_guesses_def save_loop_written)
      with pu have "u = filter (\<lambda>r. fold_col r = f) guess_df" by simp
      then show ?thesis using assms f(1) by auto
    next
      case False
      then have "?fs p = files p" by (simp add: save_guesses_def save_loop_other)
      with pu old show ?thesis by auto
    qed
  qed
  from ld have ll: "load_loop ?fs d PyNone folds = Inr (DataFrame t)"
    by (simp add: load_guesses_def split: if_splits)
  show "r \<notin> set t"
  proof
    assume "r \<in> set t"
    then have "r \<in> set (rows_of (DataFrame t))" by (simp add: rows_of_def)
    from load_loop_rows[OF ll this] none show False by (auto simp: rows_of_def)
  qed
qed

theorem save_guesses_drops_other_folds_witness:
  "fold_col ex_other \<notin> set save_folds \<and> ex_other \<in> set ex_table \<and>
   (\<exists>t. load_guesses (save_guesses ex_files ex_table ''out'') ''out'' save_folds = Inr (DataFrame t)
        \<and> ex_other \<notin> set t)"
proof -
  have h: "fold_col ex_other \<notin> set save_folds" by (simp add: save_folds_def ex_defs)
  have old: "\<forall>p t. ex_files p = Some (DataFrame t) \<longrightarrow> ex_other \<notin> set t" by (simp add: ex_files_def)
  have "save_folds \<noteq> []" by (simp add: save_folds_def)
  from load_after_save[OF this subset_refl, of ex_files ex_table "''out''"]
  obtain t where t: "load_guesses (save_guesses ex_files ex_table ''out'') ''out'' save_folds = Inr (DataFrame t)"
    by blast
  with save_guesses_drops_other_folds[OF h, of ex_files ex_table "''out''"] old
  have "ex_other \<notin> set t" by blast
  with h t show ?thesis by (simp add: ex_table_def)
qed

section \<open>Guess generation: proofs\<close>

lemma append_positions_Nil: "append_positions cols [] = cols"
  by (simp add: append_positions_def)

lemma append_positions_append:
  "append_positions (append_positions cols a) b = append_positions cols (a @ b)"
  by (simp add: append_positions_def)

lemma partials_loop_eq:
  "partials_loop fld q ps cols =
   append_positions cols (map (\<lambda>(sent, tok, text_list). (join_space text_list, fld, q_qnum q, sent, tok)) ps)"
proof (induction ps arbitrary: cols)
  case Nil
  show ?case by (simp add: append_positions_Nil)
next
  case (Cons p ps)
  obtain sent tok tl where p: "p = (sent, tok, tl)" by (cases p)
  show ?case unfolding p by (simp add: Cons.IH) (simp add: append_positions_def)
qed

lemma questions_loop_eq:
  "questions_loop partials fld qs cols =
   append_positions cols (concat (map (prefixes_of partials fld) qs))"
  by (induction qs arbitrary: cols)
     (simp_all add: append_positions_Nil partials_loop_eq append_positions_append prefixes_of_def)

lemma folds_loop_ok:
  "set folds \<subseteq> dom questions_by_fold \<Longrightarrow>
   folds_loop partials questions_by_fold folds cols =
   Inr (append_positions cols (batch_of partials questions_by_fold folds))"
proof (induction folds arbitrary: cols)
  case Nil
  show ?case by (simp add: batch_of_def append_positions_Nil)
next
  case (Cons f folds)
  then obtain qs where qs: "questions_by_fold f = Some qs" by auto
  from Cons.prems have "set folds \<subseteq> dom questions_by_fold" by simp
  from Cons.IH[OF this] qs show ?case
    by (simp add: questions_loop_eq append_positions_append batch_of_def)
qed

lemma folds_loop_missing:
  "\<not> set folds \<subseteq> dom questions_by_fold \<Longrightarrow>
   folds_loop partials questions_by_fold folds cols = Inl KeyError"
  by (induction folds arbitrary: cols) (auto split: option.splits)

lemma append_rows_Nil: "append_rows df [] = df"
  by (simp add: append_rows_def)

lemma append_rows_append: "append_rows (append_rows df a) b = append_rows df (a @ b)"
  by (simp add: append_rows_def)

lemma guesses_loop_eq:
  "guesses_loop fld qn sent tok guesser_name gs df =
   append_rows df (rows_for guesser_name (x, fld, qn, sent, tok) gs)"
proof (induction gs arbitrary: df)
  case Nil
  show ?case by (simp add: rows_for_def append_rows_Nil)
next
  case (Cons g gs)
  obtain a sc where g: "g = (a, sc)" by (cases g)
  show ?case unfolding g by (simp add: Cons.IH) (simp add: append_rows_def rows_for_def)
qed

lemma positions_loop_eq:
  assumes "\<forall>i\<in>set idx. i < length ps" "length gpq = length ps"
  shows "positions_loop (append_positions no_prefixes ps) gpq guesser_name idx df =
         Inr (append_rows df (concat (map (\<lambda>i. rows_for guesser_name (ps ! i) (gpq ! i)) idx)))"
  using assms(1)
proof (induction idx arbitrary: df)
  case Nil
  show ?case by (simp add: append_rows_Nil)
next
  case (Cons i idx)
  from Cons.prems have i: "i < length ps" and rest: "\<forall>i\<in>set idx. i < length ps" by simp_all
  obtain x f q s t where p: "ps ! i = (x, f, q, s, t)" by (cases "ps ! i")
  have sel: "map (\<lambda>(x, f, q, s, t). f) ps ! i = f" "map (\<lambda>(x, f, q, s, t). q) ps ! i = q"
    "map (\<lambda>(x, f, q, s, t). s) ps ! i = s" "map (\<lambda>(x, f, q, s, t). t) ps ! i = t"
    using i p by simp_all
  show ?case
    using i assms(2) sel Cons.IH[OF rest]
    by (simp add: py_index_def append_positions_def no_prefixes_def guesses_loop_eq[where x = x]
        append_rows_append p)
qed

lemma concat_map_nth_zip:
  assumes "length ys = length xs"
  shows "concat (map (\<lambda>i. f (xs ! i) (ys ! i)) [0..<length xs]) =
         concat (map (\<lambda>(x, y). f x y) (zip xs ys))"
proof -
  have "map (\<lambda>i. f (xs ! i) (ys ! i)) [0..<length xs] = map (\<lambda>(x, y). f x y) (zip xs ys)"
    using assms by (intro nth_equalityI) simp_all
  then show ?thesis by simp
qed

lemma pd_DataFrame_rows: "pd_DataFrame (append_rows no_rows rs) = Inr rs"
proof -
  have "map (\<lambda>i. \<lparr>qnum = map qnum rs ! i, sentence = map sentence rs ! i,
                    token = map token rs ! i, guess = map guess rs ! i,
                    score = map score rs ! i, fold_col = map fold_col rs ! i,
                    guesser = map guesser rs ! i\<rparr>) [0..<length rs] = rs"
    by (intro nth_equalityI) simp_all
  then show ?thesis
    by (simp add: pd_DataFrame_def append_rows_def no_rows_def Let_def)
qed

lemma question_texts_batch:
  "question_texts (append_positions no_prefixes ps) = map fst ps"
  by (simp add: append_positions_def no_prefixes_def case_prod_beta)

lemma generate_guesses_ok:
  assumes folds: "set folds \<subseteq> dom questions_by_fold"
    and call: "guess_method cls self (map fst (batch_of partials questions_by_fold folds)) max_n_guesses
               = (guesses_per_question, self')"
    and len: "length guesses_per_question = length (batch_of partials questions_by_fold folds)"
  shows "generate_guesses cls partials questions_by_fold self max_n_guesses folds =
         (Inr (expected_rows (display_name cls self') (batch_of partials questions_by_fold folds)
                 guesses_per_question), self')"
proof -
  let ?ps = "batch_of partials questions_by_fold folds"
  have fl: "folds_loop partials questions_by_fold folds no_prefixes = Inr (append_positions no_prefixes ?ps)"
    by (rule folds_loop_ok[OF folds])
  have pl: "positions_loop (append_positions no_prefixes ?ps) guesses_per_question
              (display_name cls self') [0..<length ?ps] no_rows =
            Inr (append_rows no_rows (expected_rows (display_name cls self') ?ps guesses_per_question))"
    using positions_loop_eq[of "[0..<length ?ps]" ?ps guesses_per_question "display_name cls self'" no_rows]
      len concat_map_nth_zip[OF len, of "rows_for (display_name cls self')"]
    by (simp add: expected_rows_def)
  show ?thesis
    unfolding generate_guesses_def
    by (simp add: fl question_texts_batch call len pl pd_DataFrame_rows)
qed

lemma generate_guesses_mismatch:
  assumes folds: "set folds \<subseteq> dom questions_by_fold"
    and call: "guess_method cls self (map fst (batch_of partials questions_by_fold folds)) max_n_guesses
               = (guesses_per_question, self')"
    and len: "length guesses_per_question \<noteq> length (batch_of partials questions_by_fold folds)"
  shows "generate_guesses cls partials questions_by_fold self max_n_guesses folds =
         (Inl AssertionError, self')"
  unfolding generate_guesses_def
  by (simp add: folds_loop_ok[OF folds] question_texts_batch call len)

lemma generate_guesses_unknown_fold:
  assumes "\<not> set folds \<subseteq> dom questions_by_fold"
  shows "generate_guesses cls partials questions_by_fold self max_n_guesses folds = (Inl KeyError, self)"
  unfolding generate_guesses_def by (simp add: folds_loop_missing[OF assms])

lemma expected_rows_pairs:
  "length guesses_per_question = length ps \<Longrightarrow>
   map (\<lambda>r. (guess r, score r)) (expected_rows guesser_name ps guesses_per_question) =
   concat guesses_per_question"
proof (induction guesses_per_question ps rule: list_induct2)
  case Nil
  show ?case by (simp add: expected_rows_def)
next
  case (Cons gs gss p ps)
  obtain x f q s t where p: "p = (x, f, q, s, t)" by (cases p)
  have "map (\<lambda>r. (guess r, score r)) (rows_for guesser_name p gs) = gs"
    unfolding p rows_for_def by (induction gs) auto
  with Cons.IH show ?case by (simp add: expected_rows_def)
qed

lemma ex_batch:
  "batch_of ex_partials ex_questions_by_fold [''dev''] =
   [(''This'', ''dev'', 7, 0, 1), (''This general'', ''dev'', 7, 0, 2)]"
  by (simp add: batch_of_def ex_questions_by_fold_def prefixes_of_def ex_partials_def ex_question_def)

text \<open>
  Claim C2. When every requested fold is a key of the question source and the guesser
  returns one list for each position, \<^verbatim>\<open>generate_guesses\<close> leaves the guesser in the
  state of one call of \<^verbatim>\<open>guess\<close> on the batch of all prefixes of all questions of the
  folds, with the requested \<open>max_n_guesses\<close>, and returns, for each position in order
  and each pair returned for it in order, one row with the position's fold, question
  number, sentence and token and the guesser's display name: as many rows as pairs,
  whatever their number.
\<close>

theorem generate_guesses_single_batch:
  assumes "set folds \<subseteq> dom questions_by_fold"
    and "guess_method cls self (map fst (batch_of partials questions_by_fold folds)) max_n_guesses
         = (guesses_per_question, self')"
    and "length guesses_per_question = length (batch_of partials questions_by_fold folds)"
  shows "generate_guesses cls partials questions_by_fold self max_n_guesses folds =
           (Inr (expected_rows (display_name cls self') (batch_of partials questions_by_fold folds)
                   guesses_per_question), self')
       \<and> length (expected_rows (display_name cls self') (batch_of partials questions_by_fold folds)
                   guesses_per_question) = sum_list (map length guesses_per_question)"
proof -
  have "length (map (\<lambda>r. (guess r, score r))
          (expected_rows (display_name cls self') (batch_of partials questions_by_fold folds)
             guesses_per_question)) = length (concat guesses_per_question)"
    by (simp only: expected_rows_pairs[OF assms(3)])
  then have "length (expected_rows (display_name cls self') (batch_of partials questions_by_fold folds)
                   guesses_per_question) = sum_list (map length guesses_per_question)"
    by (simp add: length_concat)
  with generate_guesses_ok[OF assms] show ?thesis by simp
qed

theorem generate_guesses_single_batch_witness:
  "generate_guesses ex_guesser ex_partials ex_questions_by_fold 0 5 [''dev''] =
     (Inr [\<lparr>qnum = 7, sentence = 0, token = 2, guess = ''Caesar'', score = 0.3,
             fold_col = ''dev'', guesser = ''dan''\<rparr>,
           \<lparr>qnum = 7, sentence = 0, token = 2, guess = ''Napoleon'', score = 0.9,
             fold_col = ''dev'', guesser = ''dan''\<rparr>,
           \<lparr>qnum = 7, sentence = 0, token = 2, guess = ''Cicero'', score = 0.5,
             fold_col = ''dev'', guesser = ''dan''\<rparr>], 1)"
proof -
  have h1: "set [''dev''] \<subseteq> dom ex_questions_by_fold" by (simp add: ex_questions_by_fold_def)
  have h2: "guess_method ex_guesser 0 (map fst (batch_of ex_partials ex_questions_by_fold [''dev''])) 5
            = ([[], [(''Caesar'', 0.3), (''Napoleon'', 0.9), (''Cicero'', 0.5)]], 1)"
    by (simp add: ex_batch ex_guesser_def)
  have h3: "length [[], [(''Caesar'', 0.3::real), (''Napoleon'', 0.9), (''Cicero'', 0.5)]] =
            length (batch_of ex_partials ex_questions_by_fold [''dev''])"
    by (simp add: ex_batch)
  from generate_guesses_single_batch[OF h1 h2 h3] show ?thesis
    by (simp add: ex_batch expected_rows_def rows_for_def ex_guesser_def)
qed

text \<open>
  Claim C3. \<^verbatim>\<open>generate_guesses\<close> fails its assertion exactly when the folds are known
  and the list \<^verbatim>\<open>guess\<close> returns has another length than the batch; when the lengths
  agree it returns a table.
\<close>

theorem generate_guesses_assertion:
  "(fst (generate_guesses cls partials questions_by_fold self max_n_guesses folds) = Inl AssertionError
      \<longleftrightarrow> set folds \<subseteq> dom questions_by_fold \<and>
          length (fst (guess_method cls self (map fst (batch_of partials questions_by_fold folds)) max_n_guesses))
            \<noteq> length (batch_of partials questions_by_fold folds))
   \<and> (set folds \<subseteq> dom questions_by_fold \<and>
        length (fst (guess_method cls self (map fst (batch_of partials questions_by_fold folds)) max_n_guesses))
            = length (batch_of partials questions_by_fold folds)
        \<longrightarrow> (\<exists>rows. fst (generate_guesses cls partials questions_by_fold self max_n_guesses folds) = Inr rows))"
proof (cases "set folds \<subseteq> dom questions_by_fold")
  case False
  from generate_guesses_unknown_fold[OF False, of cls partials self max_n_guesses] False
  show ?thesis by simp
next
  case True
  obtain gpq self' where call:
    "guess_method cls self (map fst (batch_of partials questions_by_fold folds)) max_n_guesses = (gpq, self')"
    by (cases "guess_method cls self (map fst (batch_of partials questions_by_fold folds)) max_n_guesses")
  show ?thesis
  proof (cases "length gpq = length (batch_of partials questions_by_fold folds)")
    case eq: True
    from generate_guesses_ok[OF True call eq] True call eq show ?thesis by simp
  next
    case ne: False
    from generate_guesses_mismatch[OF True call ne] True call ne show ?thesis by simp
  qed
qed

theorem generate_guesses_assertion_witness:
  "fst (generate_guesses ex_short_guesser ex_partials ex_questions_by_fold 0 5 [''dev'']) = Inl AssertionError
   \<and> (\<exists>rows. fst (generate_guesses ex_guesser ex_partials ex_questions_by_fold 0 5 [''dev'']) = Inr rows)"
proof -
  have d: "set [''dev''] \<subseteq> dom ex_questions_by_fold" by (simp add: ex_questions_by_fold_def)
  have a: "fst (generate_guesses ex_short_guesser ex_partials ex_questions_by_fold 0 5 [''dev'']) = Inl AssertionError"
    using generate_guesses_assertion[of ex_short_guesser ex_partials ex_questions_by_fold 0 5 "[''dev'']"] d
    by (simp add: ex_batch ex_short_guesser_def)
  have b: "\<exists>rows. fst (generate_guesses ex_guesser ex_partials ex_questions_by_fold 0 5 [''dev'']) = Inr rows"
    using generate_guesses_assertion[of ex_guesser ex_partials ex_questions_by_fold 0 5 "[''dev'']"] d
    by (simp add: ex_batch ex_guesser_def)
  from a b show ?thesis by simp
qed

text \<open>
  Claim C10. The pairs of the output table, read off its guess and score columns, are
  the pairs the guesser returned, all of them and in the order returned, whatever
  \<open>max_n_guesses\<close> is: nothing is truncated or sorted.
\<close>

theorem generate_guesses_keeps_every_pair:
  assumes "set folds \<subseteq> dom questions_by_fold"
    and "guess_method cls self (map fst (batch_of partials questions_by_fold folds)) max_n_guesses
         = (guesses_per_question, self')"
    and "length guesses_per_question = length (batch_of partials questions_by_fold folds)"
  shows "\<exists>rows. fst (generate_guesses cls partials questions_by_fold self max_n_guesses folds) = Inr rows
           \<and> map (\<lambda>r. (guess r, score r)) rows = concat guesses_per_question"
  using generate_guesses_ok[OF assms] expected_rows_pairs[OF assms(3)] by simp

theorem generate_guesses_keeps_every_pair_witness:
  "\<exists>rows. fst (generate_guesses ex_guesser ex_partials ex_questions_by_fold 0 1 [''dev'']) = Inr rows
       \<and> map (\<lambda>r. (guess r, score r)) rows = [(''Caesar'', 0.3), (''Napoleon'', 0.9), (''Cicero'', 0.5)]"
proof -
  have h1: "set [''dev''] \<subseteq> dom ex_questions_by_fold" by (simp add: ex_questions_by_fold_def)
  have h2: "guess_method ex_guesser 0 (map fst (batch_of ex_partials ex_questions_by_fold [''dev''])) 1
            = ([[], [(''Caesar'', 0.3), (''Napoleon'', 0.9), (''Cicero'', 0.5)]], 1)"
    by (simp add: ex_batch ex_guesser_def)
  have h3: "length [[], [(''Caesar'', 0.3::real), (''Napoleon'', 0.9), (''Cicero'', 0.5)]] =
            length (batch_of ex_partials ex_questions_by_fold [''dev''])"
    by (simp add: ex_batch)
  from generate_guesses_keeps_every_pair[OF h1 h2 h3] show ?thesis by simp
qed

section \<open>Cross-guesser aggregation: proofs\<close>

lemmas ex_agg_defs = ex_dan_row_def ex_rnn_row_def ex_rnn_other_def ex_combined_def

lemma drop_duplicates_from_set: "set (drop_duplicates_from seen xs) = set xs - set seen"
  by (induction xs arbitrary: seen) auto

lemma drop_duplicates_from_distinct: "distinct (drop_duplicates_from seen xs)"
  by (induction xs arbitrary: seen) (auto simp: drop_duplicates_from_set)

lemma drop_duplicates_set: "set (drop_duplicates xs) = set xs"
  by (simp add: drop_duplicates_def drop_duplicates_from_set)

lemma drop_duplicates_distinct: "distinct (drop_duplicates xs)"
  by (simp add: drop_duplicates_def drop_duplicates_from_distinct)

lemma subgroups_loop_apply:
  "subgroups_loop qn sent tok ks gm g =
     (if g \<in> snd ` set ks
      then Some ((case gm g of None \<Rightarrow> {} | Some s \<Rightarrow> s) \<union> {(qn, sent, tok, gu) | gu. (gu, g) \<in> set ks})
      else gm g)"
proof (induction ks arbitrary: gm)
  case Nil
  show ?case by simp
next
  case (Cons k ks)
  obtain gu gr where k: "k = (gu, gr)" by (cases k)
  show ?case
    unfolding k
    by (simp add: Cons.IH Let_def set_add_def) (auto simp: image_iff split: option.splits)
qed

lemma subgroups_loop_cover:
  "subgroups_loop (fst name) (fst (snd name)) (snd (snd name))
     (subgroup_keys (get_group guess_df name)) gm =
   cover gm (set (get_group guess_df name))"
proof
  fix g
  obtain qn sent tok where name: "name = (qn, sent, tok)" by (cases name)
  have mem: "\<And>r. r \<in> set (get_group guess_df name) \<Longrightarrow> qnum r = qn \<and> sentence r = sent \<and> token r = tok"
    by (auto simp: get_group_def name)
  have a: "(g \<in> snd ` set (subgroup_keys (get_group guess_df name))) =
           (\<exists>r\<in>set (get_group guess_df name). guesser r = g)"
    by (force simp: subgroup_keys_def image_iff)
  have b: "{(qn, sent, tok, gu) | gu. (gu, g) \<in> set (subgroup_keys (get_group guess_df name))} =
           {(qnum r, sentence r, token r, guess r) | r. r \<in> set (get_group guess_df name) \<and> guesser r = g}"
    using mem by (force simp: subgroup_keys_def image_iff)
  show "subgroups_loop (fst name) (fst (snd name)) (snd (snd name))
          (subgroup_keys (get_group guess_df name)) gm g =
        cover gm (set (get_group guess_df name)) g"
    unfolding subgroups_loop_apply cover_def a
    using b by (simp add: name)
qed

lemma cover_cover: "cover (cover gm A) B = cover gm (A \<union> B)"
proof
  fix g
  show "cover (cover gm A) B g = cover gm (A \<union> B) g"
    unfolding cover_def by (auto split: option.splits)
qed

lemma cover_empty: "cover gm {} = gm"
  by (simp add: cover_def)

lemma set_get_group:
  "set (get_group guess_df name) = {r \<in> set guess_df. (qnum r, sentence r, token r) = name}"
  by (auto simp: get_group_def)

lemma set_group_keys:
  "set (group_keys guess_df) = (\<lambda>r. (qnum r, sentence r, token r)) ` set guess_df"
  by (simp add: group_keys_def)

lemma distinct_group_keys: "distinct (group_keys guess_df)"
  by (simp add: group_keys_def)

lemma sorted_group_keys: "sorted (group_keys guess_df)"
  by (simp add: group_keys_def)

lemma groups_loop_ok:
  assumes "\<forall>name\<in>set names. fst name \<in> dom question_map"
  shows "groups_loop question_map guess_df names gm tasks =
         Inr (cover gm {r \<in> set guess_df. (qnum r, sentence r, token r) \<in> set names},
              tasks @ map (task_of question_map guess_df) names)"
  using assms
proof (induction names arbitrary: gm tasks)
  case Nil
  show ?case by (simp add: cover_empty)
next
  case (Cons name names)
  from Cons.prems obtain question where q: "question_map (fst name) = Some question" by auto
  from Cons.prems have rest: "\<forall>name\<in>set names. fst name \<in> dom question_map" by simp
  have u: "set (get_group guess_df name) \<union> {r \<in> set guess_df. (qnum r, sentence r, token r) \<in> set names} =
           {r \<in> set guess_df. (qnum r, sentence r, token r) \<in> set (name # names)}"
    by (auto simp: set_get_group)
  show ?case
    by (simp add: Let_def q subgroups_loop_cover Cons.IH[OF rest] cover_cover u task_of_def
             del: set_simps)
qed

lemma groups_loop_missing:
  assumes "\<exists>name\<in>set names. fst name \<notin> dom question_map"
  shows "groups_loop question_map guess_df names gm tasks = Inl KeyError"
  using assms
  by (induction names arbitrary: gm tasks) (auto simp: Let_def split: option.splits)

lemma aggregate_ok:
  assumes "qnum ` set guess_df \<subseteq> dom question_map"
  shows "aggregate question_map (DataFrame guess_df) =
         Inr (cover Map.empty (set guess_df), map (task_of question_map guess_df) (group_keys guess_df))"
proof -
  have "\<forall>name\<in>set (group_keys guess_df). fst name \<in> dom question_map"
    using assms by (auto simp: set_group_keys)
  from groups_loop_ok[OF this, of guess_df Map.empty "[]"]
  have "groups_loop question_map guess_df (group_keys guess_df) Map.empty [] =
        Inr (cover Map.empty {r \<in> set guess_df. (qnum r, sentence r, token r) \<in> set (group_keys guess_df)},
             map (task_of question_map guess_df) (group_keys guess_df))" by simp
  moreover have "{r \<in> set guess_df. (qnum r, sentence r, token r) \<in> set (group_keys guess_df)} = set guess_df"
    by (auto simp: set_group_keys)
  ultimately show ?thesis by (simp add: aggregate_def)
qed

lemma aggregate_missing:
  assumes "\<not> qnum ` set guess_df \<subseteq> dom question_map"
  shows "aggregate question_map (DataFrame guess_df) = Inl KeyError"
proof -
  from assms obtain r where "r \<in> set guess_df" "qnum r \<notin> dom question_map" by auto
  then have "\<exists>name\<in>set (group_keys guess_df). fst name \<notin> dom question_map"
    by (force simp: set_group_keys)
  from groups_loop_missing[OF this] show ?thesis by (simp add: aggregate_def)
qed

lemma load_loop_cong:
  "\<forall>f\<in>set folds. files2 (guess_path d f) = files (guess_path d f) \<Longrightarrow>
   load_loop files2 d acc folds = load_loop files d acc folds"
  by (induction folds arbitrary: acc) (simp_all add: Let_def split: option.splits sum.splits)

lemma load_guesses_cong:
  "\<forall>f\<in>set folds. files2 (guess_path d f) = files (guess_path d f) \<Longrightarrow>
   load_guesses files2 d folds = load_guesses files d folds"
  by (simp add: load_guesses_def load_loop_cong)

lemma guessers_loop_cong:
  assumes "\<forall>p\<in>set (concat (map (\<lambda>(guesser_class, cfg).
                    map (guess_path (path_join (GUESSER_TARGET_PREFIX c) guesser_class)) (ALL_FOLDS c)) gl)).
             files2 p = files p"
  shows "guessers_loop files2 c acc gl = guessers_loop files c acc gl"
  using assms
proof (induction gl arbitrary: acc)
  case Nil
  show ?case by simp
next
  case (Cons g gl)
  obtain gc cfg where g: "g = (gc, cfg)" by (cases g)
  from Cons.prems have
    l: "load_guesses files2 (path_join (GUESSER_TARGET_PREFIX c) gc) (ALL_FOLDS c) =
        load_guesses files (path_join (GUESSER_TARGET_PREFIX c) gc) (ALL_FOLDS c)"
    by (intro load_guesses_cong) (simp add: g)
  from Cons.prems have "\<forall>p\<in>set (concat (map (\<lambda>(guesser_class, cfg).
                    map (guess_path (path_join (GUESSER_TARGET_PREFIX c) guesser_class)) (ALL_FOLDS c)) gl)).
             files2 p = files p" by simp
  note ih = Cons.IH[OF this]
  show ?case unfolding g by (simp add: Let_def l ih split: sum.splits)
qed

lemma distinct_count_list_one: "distinct xs \<Longrightarrow> x \<in> set xs \<Longrightarrow> count_list xs x = 1"
  by (induction xs) (auto simp: count_list_0_iff)

lemma ex_load_all:
  "guessers_loop ex_guess_files ex_constants PyNone (GUESSER_LIST ex_constants) = Inr (DataFrame ex_combined)"
proof -
  have p: "path_join ''out'' ''dan'' = ''out/dan''" "path_join ''out'' ''rnn'' = ''out/rnn''"
    by (simp_all add: path_join_def)
  have d: "ex_guess_files (guess_path ''out/dan'' ''dev'') = Some (DataFrame [ex_dan_row])"
    by (simp add: ex_guess_files_def save_guesses_def save_folds_def guess_path_def path_join_def
        ex_agg_defs)
  have r: "ex_guess_files (guess_path ''out/rnn'' ''dev'') = Some (DataFrame [ex_rnn_row, ex_rnn_other])"
    by (simp add: ex_guess_files_def save_guesses_def save_folds_def guess_path_def path_join_def
        ex_agg_defs)
  have ld: "load_guesses ex_guess_files ''out/dan'' [''dev''] = Inr (DataFrame [ex_dan_row])"
    by (simp add: load_guesses_def d)
  have lr: "load_guesses ex_guess_files ''out/rnn'' [''dev''] = Inr (DataFrame [ex_rnn_row, ex_rnn_other])"
    by (simp add: load_guesses_def r)
  show ?thesis
    by (simp add: ex_constants_def p ld lr ex_combined_def)
qed

lemma ex_group_keys: "group_keys ex_combined = [(7, 0, 2)]"
  by (simp add: group_keys_def ex_agg_defs)

lemma ex_get_group: "get_group ex_combined (7, 0, 2) = ex_combined"
  by (simp add: get_group_def ex_agg_defs)

lemma ex_dedup:
  "drop_duplicates (map drop_guesser ex_combined) = [drop_guesser ex_dan_row, drop_guesser ex_rnn_other]"
  by (simp add: drop_duplicates_def ex_agg_defs drop_guesser_def)

lemma cover_empty_list:
  "cover Map.empty (set rs) g =
     (if g \<in> set (map guesser rs)
      then Some (set (map (\<lambda>r. (qnum r, sentence r, token r, guess r))
                         (filter (\<lambda>r. guesser r = g) rs)))
      else None)"
  by (auto simp: cover_def)

text \<open>
  Claim C1. When the tables of all guessers load and every question number is known,
  the task of each group \<open>(qnum, sentence, token)\<close> holds the rows of the group without
  the guesser column and without duplicates, so the row of any guess row of the
  combined table occurs exactly once in the table of its task, however many guessers
  produced it; and the index of every guesser of a row holds the row's
  \<open>(qnum, sentence, token, guess)\<close>.
\<close>

theorem aggregate_collapses_duplicates:
  assumes "guessers_loop files c PyNone (GUESSER_LIST c) = Inr (DataFrame guess_df)"
    and "qnum ` set guess_df \<subseteq> dom question_map"
  shows "\<exists>guess_map tasks.
           preprocess_all_guesses c question_map files =
             Inr (files(GUESSER_INDEX c \<mapsto> GuessMap guess_map, GUESS_TASKS c \<mapsto> TaskList tasks))
         \<and> tasks = map (\<lambda>name. (the (question_map (fst name)),
                                  drop_duplicates (map drop_guesser (get_group guess_df name))))
                        (group_keys guess_df)
         \<and> guess_map = cover Map.empty (set guess_df)
         \<and> (\<forall>r\<in>set guess_df.
               count_list (drop_duplicates (map drop_guesser
                              (get_group guess_df (qnum r, sentence r, token r))))
                          (drop_guesser r) = 1
             \<and> (\<exists>s. guess_map (guesser r) = Some s \<and> (qnum r, sentence r, token r, guess r) \<in> s))"
proof -
  have t: "map (task_of question_map guess_df) (group_keys guess_df) =
           map (\<lambda>name. (the (question_map (fst name)),
                          drop_duplicates (map drop_guesser (get_group guess_df name))))
               (group_keys guess_df)"
    by (simp add: task_of_def)
  have r: "\<forall>r\<in>set guess_df.
               count_list (drop_duplicates (map drop_guesser
                              (get_group guess_df (qnum r, sentence r, token r))))
                          (drop_guesser r) = 1
             \<and> (\<exists>s. cover Map.empty (set guess_df) (guesser r) = Some s
                     \<and> (qnum r, sentence r, token r, guess r) \<in> s)"
  proof
    fix r assume r: "r \<in> set guess_df"
    then have "r \<in> set (get_group guess_df (qnum r, sentence r, token r))"
      by (simp add: set_get_group)
    then have "drop_guesser r \<in> set (drop_duplicates (map drop_guesser
                              (get_group guess_df (qnum r, sentence r, token r))))"
      by (simp add: drop_duplicates_set)
    then have c: "count_list (drop_duplicates (map drop_guesser
                              (get_group guess_df (qnum r, sentence r, token r))))
                          (drop_guesser r) = 1"
      by (rule distinct_count_list_one[OF drop_duplicates_distinct])
    have "\<exists>s. cover Map.empty (set guess_df) (guesser r) = Some s
                     \<and> (qnum r, sentence r, token r, guess r) \<in> s"
      using r by (auto simp: cover_def)
    with c show "count_list (drop_duplicates (map drop_guesser
                              (get_group guess_df (qnum r, sentence r, token r))))
                          (drop_guesser r) = 1
             \<and> (\<exists>s. cover Map.empty (set guess_df) (guesser r) = Some s
                     \<and> (qnum r, sentence r, token r, guess r) \<in> s)" by simp
  qed
  have p: "preprocess_all_guesses c question_map files =
          Inr (files(GUESSER_INDEX c \<mapsto> GuessMap (cover Map.empty (set guess_df)),
                     GUESS_TASKS c \<mapsto> TaskList (map (task_of question_map guess_df) (group_keys guess_df))))"
    by (simp add: preprocess_all_guesses_def assms(1) aggregate_ok[OF assms(2)])
  from p[unfolded t] r show ?thesis by blast
qed

theorem aggregate_collapses_duplicates_witness:
  "\<exists>guess_map tasks.
      preprocess_all_guesses ex_constants ex_question_map ex_guess_files =
        Inr (ex_guess_files(''out/index'' \<mapsto> GuessMap guess_map, ''out/tasks'' \<mapsto> TaskList tasks))
    \<and> tasks = [(ex_question, [drop_guesser ex_dan_row, drop_guesser ex_rnn_other])]
    \<and> drop_guesser ex_rnn_row = drop_guesser ex_dan_row
    \<and> guess_map ''dan'' = Some {(7, 0, 2, ''Napoleon'')}
    \<and> guess_map ''rnn'' = Some {(7, 0, 2, ''Napoleon''), (7, 0, 2, ''Caesar'')}"
proof -
  have h: "qnum ` set ex_combined \<subseteq> dom ex_question_map"
    by (simp add: ex_agg_defs ex_question_map_def)
  from aggregate_collapses_duplicates[OF ex_load_all h] obtain guess_map tasks where
    a: "preprocess_all_guesses ex_constants ex_question_map ex_guess_files =
          Inr (ex_guess_files(GUESSER_INDEX ex_constants \<mapsto> GuessMap guess_map,
                              GUESS_TASKS ex_constants \<mapsto> TaskList tasks))" and
    t: "tasks = map (\<lambda>name. (the (ex_question_map (fst name)),
                                  drop_duplicates (map drop_guesser (get_group ex_combined name))))
                        (group_keys ex_combined)" and
    g: "guess_map = cover Map.empty (set ex_combined)"
    by blast
  from a have a': "preprocess_all_guesses ex_constants ex_question_map ex_guess_files =
        Inr (ex_guess_files(''out/index'' \<mapsto> GuessMap guess_map, ''out/tasks'' \<mapsto> TaskList tasks))"
    by (simp add: ex_constants_def)
  from t have t': "tasks = [(ex_question, [drop_guesser ex_dan_row, drop_guesser ex_rnn_other])]"
    by (simp add: ex_group_keys ex_get_group ex_dedup ex_question_map_def)
  have e: "drop_guesser ex_rnn_row = drop_guesser ex_dan_row"
    by (simp add: drop_guesser_def ex_agg_defs)
  have d: "guess_map ''dan'' = Some {(7, 0, 2, ''Napoleon'')}"
    unfolding g cover_empty_list by (simp add: ex_agg_defs)
  have r: "guess_map ''rnn'' = Some {(7, 0, 2, ''Napoleon''), (7, 0, 2, ''Caesar'')}"
    unfolding g cover_empty_list by (simp add: ex_agg_defs)
  from a' t' e d r show ?thesis by blast
qed

text \<open>
  Claim C7. When the combined table holds a row whose question number is not a key of
  the question map, \<^verbatim>\<open>preprocess_all_guesses\<close> ends in a \<^verbatim>\<open>KeyError\<close>: it returns no
  file system with artifacts written.
\<close>

theorem preprocess_unknown_qnum:
  assumes "guessers_loop files c PyNone (GUESSER_LIST c) = Inr (DataFrame guess_df)"
    and "r \<in> set guess_df" and "qnum r \<notin> dom question_map"
  shows "preprocess_all_guesses c question_map files = Inl KeyError"
proof -
  from assms(2,3) have "\<not> qnum ` set guess_df \<subseteq> dom question_map" by auto
  from aggregate_missing[OF this] assms(1) show ?thesis
    by (simp add: preprocess_all_guesses_def)
qed

theorem preprocess_unknown_qnum_witness:
  "preprocess_all_guesses ex_constants (Map.empty :: int \<rightharpoonup> question) ex_guess_files = Inl KeyError"
proof -
  have m: "ex_dan_row \<in> set ex_combined" by (simp add: ex_combined_def)
  have q: "qnum ex_dan_row \<notin> dom (Map.empty :: int \<rightharpoonup> question)" by simp
  from preprocess_unknown_qnum[OF ex_load_all m q] show ?thesis .
qed

text \<open>
  Claim C8. When the two artifacts are not written over a guess file that the
  aggregation reads, running \<^verbatim>\<open>preprocess_all_guesses\<close> again on the files the first run
  left gives the same files: the same index and the same task list.
\<close>

theorem preprocess_idempotent:
  assumes "preprocess_all_guesses c question_map files = Inr files'"
    and "GUESSER_INDEX c \<notin> set (read_paths c)" and "GUESS_TASKS c \<notin> set (read_paths c)"
  shows "preprocess_all_guesses c question_map files' = Inr files'"
proof -
  from assms(1) obtain obj gm tasks where
    l: "guessers_loop files c PyNone (GUESSER_LIST c) = Inr obj" and
    a: "aggregate question_map obj = Inr (gm, tasks)" and
    f: "files' = files(GUESSER_INDEX c \<mapsto> GuessMap gm, GUESS_TASKS c \<mapsto> TaskList tasks)"
    by (auto simp: preprocess_all_guesses_def split: sum.splits prod.splits)
  have "\<forall>p\<in>set (read_paths c). files' p = files p"
    using assms(2,3) by (auto simp: f)
  then have "guessers_loop files' c PyNone (GUESSER_LIST c) = guessers_loop files c PyNone (GUESSER_LIST c)"
    unfolding read_paths_def by (rule guessers_loop_cong)
  with l a have "preprocess_all_guesses c question_map files' =
                 Inr (files'(GUESSER_INDEX c \<mapsto> GuessMap gm, GUESS_TASKS c \<mapsto> TaskList tasks))"
    by (simp add: preprocess_all_guesses_def)
  moreover have "files'(GUESSER_INDEX c \<mapsto> GuessMap gm, GUESS_TASKS c \<mapsto> TaskList tasks) = files'"
    unfolding f by (rule ext) simp
  ultimately show ?thesis by simp
qed

theorem preprocess_idempotent_witness:
  "\<exists>files'. preprocess_all_guesses ex_constants ex_question_map ex_guess_files = Inr files'
          \<and> preprocess_all_guesses ex_constants ex_question_map files' = Inr files'"
proof -
  have h: "qnum ` set ex_combined \<subseteq> dom ex_question_map"
    by (simp add: ex_agg_defs ex_question_map_def)
  from aggregate_ok[OF h] ex_load_all obtain files' where
    f: "preprocess_all_guesses ex_constants ex_question_map ex_guess_files = Inr files'"
    by (simp add: preprocess_all_guesses_def)
  have i: "GUESSER_INDEX ex_constants \<notin> set (read_paths ex_constants)"
    by (simp add: read_paths_def ex_constants_def guess_path_def path_join_def)
  have t: "GUESS_TASKS ex_constants \<notin> set (read_paths ex_constants)"
    by (simp add: read_paths_def ex_constants_def guess_path_def path_join_def)
  from preprocess_idempotent[OF f i t] f show ?thesis by blast
qed

end
